theory Spec2Isabelle
  imports Main
begin

section \<open>Data model\<close>

text \<open>
  The lifecycle of an asynchronous fetch (\<^verbatim>\<open>AsyncStatus\<close> of \<^verbatim>\<open>util/types\<close>, whose
  declaration is imported by both source files).
\<close>

datatype AsyncStatus = STANDBY | PENDING | FULFILLED | REJECTED

text \<open>
  Modelled from the spec: the declarations of \<^verbatim>\<open>ProposalFlag\<close> and \<^verbatim>\<open>VotingState\<close> are
  not among the sources; the spec lists the flags EXISTS, SPONSORED, PROCESSED of a
  bit-flag set and the vote phases IN_PROGRESS, GRACE_PERIOD, TIE, PASS, NOT_PASS.
\<close>

datatype ProposalFlag = EXISTS | SPONSORED | PROCESSED

datatype VotingState = IN_PROGRESS | GRACE_PERIOD | TIE | PASS | NOT_PASS

text \<open>
  Modelled from the spec: the helper \<^verbatim>\<open>proposalHasFlag\<close> is imported from
  \<^verbatim>\<open>./helpers\<close>, which is not among the sources. The flags of an on-chain record are a
  bit field, one bit for each flag in the order the spec lists them; a proposal carries a
  flag when the flag's bit is set.
\<close>

fun flagIndex :: "ProposalFlag \<Rightarrow> nat" where
  "flagIndex EXISTS = 0"
| "flagIndex SPONSORED = 1"
| "flagIndex PROCESSED = 2"

definition proposalHasFlag :: "ProposalFlag \<Rightarrow> nat \<Rightarrow> bool" where
  "proposalHasFlag flag fl = bit fl (flagIndex flag)"

text \<open>
  Modelled from the spec: the helper \<^verbatim>\<open>proposalHasVotingState\<close> is imported from
  \<^verbatim>\<open>./helpers\<close>, which is not among the sources. It tells whether the recorded vote
  state is the given one.
\<close>

definition proposalHasVotingState :: "VotingState \<Rightarrow> VotingState \<Rightarrow> bool" where
  "proposalHasVotingState vs voteState = (voteState = vs)"

text \<open>
  Modelled from the spec: \<^verbatim>\<open>normalizeString\<close> is imported from \<^verbatim>\<open>util/helpers\<close>, which
  is not among the sources. Identifiers are matched case-insensitively: every upper-case
  ASCII letter is replaced by its lower-case letter.
\<close>

definition toLowerChar :: "char \<Rightarrow> char" where
  "toLowerChar c =
     (let n = (of_char c :: nat) in if 65 \<le> n \<and> n \<le> 90 then char_of (n + 32) else c)"

definition normalizeString :: "string \<Rightarrow> string" where
  "normalizeString s = map toLowerChar s"

text \<open>
  Modelled from the spec: the constant \<^verbatim>\<open>BURN_ADDRESS\<close> is imported from
  \<^verbatim>\<open>util/constants\<close>, which is not among the sources: the reserved null address.
\<close>

definition BURN_ADDRESS :: string where
  "BURN_ADDRESS = ''0x0000000000000000000000000000000000000000''"

text \<open>
  The parts of \<^verbatim>\<open>ProposalData\<close> that the classification reads. Every optional field of
  the source (\<^verbatim>\<open>?.\<close> chains, comparisons with \<^verbatim>\<open>undefined\<close>) is an option. The votes of
  a snapshot proposal are only counted, so their type is a parameter.
\<close>

record 'v SnapshotProposal =
  idInDAO :: "string option"
  votes :: "'v list option"

record DaoProposal =
  flags :: nat

record OffchainVotingContractVotes =
  reporter :: string

record ProposalVotes =
  OffchainVotingContract :: "OffchainVotingContractVotes option"

record 'v ProposalData =
  snapshotProposal :: "'v SnapshotProposal option"
  daoProposal :: "DaoProposal option"
  daoProposalVotingState :: "VotingState option"
  daoProposalVotes :: "ProposalVotes option"

text \<open>An off-chain tally: the aggregate unit counts of the two choices.\<close>

record VoteTally =
  units :: int

record VotingResult =
  Yes :: VoteTally
  No :: VoteTally

type_synonym OffchainVotingResults = "(string \<times> VotingResult) list"

record 'v FilteredProposals =
  failedProposals :: "'v ProposalData list"
  nonsponsoredProposals :: "'v ProposalData list"
  passedProposals :: "'v ProposalData list"
  votingProposals :: "'v ProposalData list"

datatype Bucket = Failed | NonSponsored | Passed | Voting

section \<open>The proposal classifier\<close>

text \<open>\<^verbatim>\<open>offchainVoteResult.Yes.units > offchainVoteResult.No.units\<close>\<close>

definition didPassSimpleMajority :: "VotingResult \<Rightarrow> bool" where
  "didPassSimpleMajority offchainVoteResult =
     (units (Yes offchainVoteResult) > units (No offchainVoteResult))"

text \<open>\<^verbatim>\<open>p.snapshotProposal?.votes?.length === 0\<close>\<close>

definition noSnapshotVotes :: "'v ProposalData \<Rightarrow> bool" where
  "noSnapshotVotes p =
     (case snapshotProposal p of
        None \<Rightarrow> False
      | Some sp \<Rightarrow> (case votes sp of None \<Rightarrow> False | Some vs \<Rightarrow> length vs = 0))"

text \<open>\<^verbatim>\<open>votesData?.OffchainVotingContract?.reporter === BURN_ADDRESS\<close>\<close>

definition reporterIsBurnAddress :: "'v ProposalData \<Rightarrow> bool" where
  "reporterIsBurnAddress p =
     (case daoProposalVotes p of
        None \<Rightarrow> False
      | Some votesData \<Rightarrow>
          (case OffchainVotingContract votesData of
             None \<Rightarrow> False
           | Some c \<Rightarrow> reporter c = BURN_ADDRESS))"

definition offchainResultNotYetSubmitted :: "'v ProposalData \<Rightarrow> DaoProposal \<Rightarrow> bool" where
  "offchainResultNotYetSubmitted p d =
     (case daoProposalVotingState p of
        None \<Rightarrow> False
      | Some voteState \<Rightarrow>
          (proposalHasVotingState GRACE_PERIOD voteState \<or>
           proposalHasVotingState TIE voteState) \<and>
          proposalHasFlag SPONSORED (flags d) \<and>
          reporterIsBurnAddress p)"

text \<open>\<^verbatim>\<open>p.snapshotProposal?.idInDAO || ''\<close>: an absent or empty identifier is \<^verbatim>\<open>''\<close>.\<close>

definition idInDAOOrEmpty :: "'v ProposalData \<Rightarrow> string" where
  "idInDAOOrEmpty p =
     (case snapshotProposal p of
        None \<Rightarrow> []
      | Some sp \<Rightarrow> (case idInDAO sp of None \<Rightarrow> [] | Some s \<Rightarrow> s))"

text \<open>
  \<^verbatim>\<open>offchainVotingResults.find(([proposalHash, _result]) => ...)?.[1]\<close>: the result of
  the first entry whose normalized hash is the proposal's normalized identifier.
\<close>

definition findOffchainResult ::
  "OffchainVotingResults \<Rightarrow> 'v ProposalData \<Rightarrow> VotingResult option" where
  "findOffchainResult offchainVotingResults p =
     map_option snd
       (find (\<lambda>entry. normalizeString (fst entry) = normalizeString (idInDAOOrEmpty p))
          offchainVotingResults)"

text \<open>
  The callback of \<^verbatim>\<open>proposals.forEach\<close>, in the order of the source. A
  \<^verbatim>\<open>push(p); return\<close> is \<open>Some\<close> of the bucket pushed to, a bare \<^verbatim>\<open>return\<close> (and the
  end of the callback) is \<open>None\<close>. The callback is given statement by statement further
  down (\<open>forEachCallback\<close>), and the two are proved to fill the same lists.
\<close>

definition classifyProposal ::
  "bool \<Rightarrow> OffchainVotingResults \<Rightarrow> 'v ProposalData \<Rightarrow> Bucket option" where
  "classifyProposal includeProposalsExistingOnlyOffchain offchainVotingResults p =
     (case daoProposal p of
        None \<Rightarrow> None
      | Some d \<Rightarrow>
          (case daoProposalVotingState p of
             None \<Rightarrow>
               (if includeProposalsExistingOnlyOffchain then Some NonSponsored
                else if proposalHasFlag EXISTS (flags d) then Some NonSponsored
                else None)
           | Some voteState \<Rightarrow>
               if proposalHasVotingState PASS voteState \<and>
                  (proposalHasFlag SPONSORED (flags d) \<or> proposalHasFlag PROCESSED (flags d))
               then Some Passed
               else
                 (case findOffchainResult offchainVotingResults p of
                    None \<Rightarrow> None
                  | Some offchainResult \<Rightarrow>
                      let didPass = didPassSimpleMajority offchainResult in
                      if offchainResultNotYetSubmitted p d \<and> \<not> noSnapshotVotes p \<and> didPass
                      then Some Voting
                      else if (proposalHasVotingState NOT_PASS voteState \<or>
                               proposalHasVotingState TIE voteState) \<and>
                              (proposalHasFlag SPONSORED (flags d) \<or>
                               proposalHasFlag PROCESSED (flags d))
                      then Some Failed
                      else if offchainResultNotYetSubmitted p d \<and> noSnapshotVotes p
                      then Some Failed
                      else if offchainResultNotYetSubmitted p d \<and> \<not> didPass
                      then Some Failed
                      else if (proposalHasVotingState GRACE_PERIOD voteState \<or>
                               proposalHasVotingState IN_PROGRESS voteState) \<and>
                              proposalHasFlag SPONSORED (flags d)
                      then Some Voting
                      else None)))"

text \<open>\<^verbatim>\<open>filteredProposalsToSet.<bucket>.push(p)\<close>\<close>

fun pushProposal ::
  "Bucket \<Rightarrow> 'v ProposalData \<Rightarrow> 'v FilteredProposals \<Rightarrow> 'v FilteredProposals" where
  "pushProposal Failed p acc = acc\<lparr>failedProposals := failedProposals acc @ [p]\<rparr>"
| "pushProposal NonSponsored p acc =
     acc\<lparr>nonsponsoredProposals := nonsponsoredProposals acc @ [p]\<rparr>"
| "pushProposal Passed p acc = acc\<lparr>passedProposals := passedProposals acc @ [p]\<rparr>"
| "pushProposal Voting p acc = acc\<lparr>votingProposals := votingProposals acc @ [p]\<rparr>"

definition forEachStep ::
  "bool \<Rightarrow> OffchainVotingResults \<Rightarrow> 'v FilteredProposals \<Rightarrow> 'v ProposalData \<Rightarrow>
   'v FilteredProposals" where
  "forEachStep includeProposalsExistingOnlyOffchain offchainVotingResults acc p =
     (case classifyProposal includeProposalsExistingOnlyOffchain offchainVotingResults p of
        None \<Rightarrow> acc
      | Some b \<Rightarrow> pushProposal b p acc)"

definition emptyFilteredProposals :: "'v FilteredProposals" where
  "emptyFilteredProposals =
     \<lparr>failedProposals = [], nonsponsoredProposals = [], passedProposals = [],
      votingProposals = []\<rparr>"

text \<open>
  The loop: \<^verbatim>\<open>filteredProposalsToSet\<close> starts with four empty lists and the callback
  runs on every proposal, in order.
\<close>

definition classifyProposals ::
  "bool \<Rightarrow> OffchainVotingResults \<Rightarrow> 'v ProposalData list \<Rightarrow> 'v FilteredProposals" where
  "classifyProposals includeProposalsExistingOnlyOffchain offchainVotingResults proposals =
     foldl (forEachStep includeProposalsExistingOnlyOffchain offchainVotingResults)
       emptyFilteredProposals proposals"

text \<open>The bucket lists of a partition, by bucket.\<close>

fun bucketList :: "Bucket \<Rightarrow> 'v FilteredProposals \<Rightarrow> 'v ProposalData list" where
  "bucketList Failed fp = failedProposals fp"
| "bucketList NonSponsored fp = nonsponsoredProposals fp"
| "bucketList Passed fp = passedProposals fp"
| "bucketList Voting fp = votingProposals fp"

subsection \<open>The callback, statement by statement\<close>

text \<open>
  The callback of \<^verbatim>\<open>proposals.forEach\<close> once more, now as the sequence of statements it
  is: a statement either returns from the callback (\<open>Returned\<close>) or hands the four lists
  on to the statement after it (\<open>Running\<close>). A \<^verbatim>\<open>push\<close> hands the lists on; only a
  \<^verbatim>\<open>return\<close> ends the callback, so a proposal is pushed once only if every path of the
  callback pushes at most once before it returns.
\<close>

datatype 'a flow = Returned 'a | Running 'a

text \<open>Sequencing: the second statement runs unless the first has returned.\<close>

definition thenDo :: "'a flow \<Rightarrow> ('a \<Rightarrow> 'a flow) \<Rightarrow> 'a flow" where
  "thenDo m f = (case m of Returned a \<Rightarrow> Returned a | Running a \<Rightarrow> f a)"

text \<open>\<^verbatim>\<open>return;\<close>\<close>

definition returnNow :: "'a \<Rightarrow> 'a flow" where
  "returnNow a = Returned a"

text \<open>\<^verbatim>\<open>if (c) { body }\<close> without an \<^verbatim>\<open>else\<close>.\<close>

definition ifThen :: "bool \<Rightarrow> ('a \<Rightarrow> 'a flow) \<Rightarrow> 'a \<Rightarrow> 'a flow" where
  "ifThen c body a = (if c then body a else Running a)"

text \<open>The end of the callback's body: the lists as they are, returned or not.\<close>

definition endOfCallback :: "'a flow \<Rightarrow> 'a" where
  "endOfCallback m = (case m of Returned a \<Rightarrow> a | Running a \<Rightarrow> a)"

text \<open>\<^verbatim>\<open>filteredProposalsToSet.<bucket>.push(p);\<close> does not return.\<close>

definition pushTo ::
  "Bucket \<Rightarrow> 'v ProposalData \<Rightarrow> 'v FilteredProposals \<Rightarrow> 'v FilteredProposals flow" where
  "pushTo b p s = Running (pushProposal b p s)"

text \<open>\<^verbatim>\<open>voteState !== undefined && proposalHasVotingState(vs, voteState)\<close>\<close>

definition votingStateIs :: "VotingState \<Rightarrow> VotingState option \<Rightarrow> bool" where
  "votingStateIs vs voteState =
     (case voteState of None \<Rightarrow> False | Some v \<Rightarrow> proposalHasVotingState vs v)"

text \<open>
  The body of the callback, lines 137 to 252: every \<^verbatim>\<open>if\<close> of the source with its
  condition, its \<^verbatim>\<open>push\<close> and its \<^verbatim>\<open>return\<close>, in the order of the source.
\<close>

definition forEachCallback ::
  "bool \<Rightarrow> OffchainVotingResults \<Rightarrow> 'v ProposalData \<Rightarrow> 'v FilteredProposals \<Rightarrow>
   'v FilteredProposals" where
  "forEachCallback includeProposalsExistingOnlyOffchain offchainVotingResults p
     filteredProposalsToSet =
     endOfCallback
       (case daoProposal p of
          None \<Rightarrow> returnNow filteredProposalsToSet
        | Some d \<Rightarrow>
            let voteState = daoProposalVotingState p;
                noVotes = noSnapshotVotes p;
                notYetSubmitted = offchainResultNotYetSubmitted p d
            in
            thenDo
              (ifThen (voteState = None)
                 (\<lambda>s. thenDo
                    (if includeProposalsExistingOnlyOffchain then pushTo NonSponsored p s
                     else if proposalHasFlag EXISTS (flags d) then pushTo NonSponsored p s
                     else Running s)
                    returnNow)
                 filteredProposalsToSet)
            (\<lambda>s. thenDo
              (ifThen
                 (votingStateIs PASS voteState \<and>
                  (proposalHasFlag SPONSORED (flags d) \<or> proposalHasFlag PROCESSED (flags d)))
                 (\<lambda>s. thenDo (pushTo Passed p s) returnNow) s)
            (\<lambda>s. case findOffchainResult offchainVotingResults p of
               None \<Rightarrow> returnNow s
             | Some offchainResult \<Rightarrow>
                 let didPass = didPassSimpleMajority offchainResult in
                 thenDo
                   (ifThen (notYetSubmitted \<and> noVotes = False \<and> didPass)
                      (\<lambda>s. thenDo (pushTo Voting p s) returnNow) s)
                 (\<lambda>s. thenDo
                   (ifThen
                      ((votingStateIs NOT_PASS voteState \<or> votingStateIs TIE voteState) \<and>
                       (proposalHasFlag SPONSORED (flags d) \<or>
                        proposalHasFlag PROCESSED (flags d)))
                      (\<lambda>s. thenDo (pushTo Failed p s) returnNow) s)
                 (\<lambda>s. thenDo
                   (ifThen (voteState \<noteq> None \<and> notYetSubmitted \<and> noVotes)
                      (\<lambda>s. thenDo (pushTo Failed p s) returnNow) s)
                 (\<lambda>s. thenDo
                   (ifThen (voteState \<noteq> None \<and> notYetSubmitted \<and> \<not> didPass)
                      (\<lambda>s. thenDo (pushTo Failed p s) returnNow) s)
                 (\<lambda>s.
                   ifThen
                      ((votingStateIs GRACE_PERIOD voteState \<or>
                        votingStateIs IN_PROGRESS voteState) \<and>
                       proposalHasFlag SPONSORED (flags d))
                      (\<lambda>s. thenDo (pushTo Voting p s) returnNow) s)))))))"

text \<open>\<^verbatim>\<open>proposals.forEach\<close> with that callback, from four empty lists.\<close>

definition proposalsForEach ::
  "bool \<Rightarrow> OffchainVotingResults \<Rightarrow> 'v ProposalData list \<Rightarrow> 'v FilteredProposals" where
  "proposalsForEach includeProposalsExistingOnlyOffchain offchainVotingResults proposals =
     foldl (\<lambda>filteredProposalsToSet p.
              forEachCallback includeProposalsExistingOnlyOffchain offchainVotingResults p
                filteredProposalsToSet)
       emptyFilteredProposals proposals"

text \<open>The number of entries of the four lists together.\<close>

definition placedCount :: "'v FilteredProposals \<Rightarrow> nat" where
  "placedCount fp =
     length (failedProposals fp) + length (nonsponsoredProposals fp) +
     length (passedProposals fp) + length (votingProposals fp)"

subsection \<open>The classification effect\<close>

text \<open>
  What the component reads on a render: the results of \<^verbatim>\<open>useProposals\<close> and
  \<^verbatim>\<open>useOffchainVotingResults\<close>, and its own state \<^verbatim>\<open>proposalsForVotingResults\<close>.
\<close>

record 'v ProposalsRender =
  proposals :: "'v ProposalData list"
  proposalsStatus :: AsyncStatus
  offchainVotingResults :: OffchainVotingResults
  offchainVotingResultsStatus :: AsyncStatus
  proposalsForVotingResults :: "'v SnapshotProposal option list"

definition isLoading :: "'v ProposalsRender \<Rightarrow> bool" where
  "isLoading r =
     (proposalsStatus r = STANDBY \<or>
      proposalsStatus r = PENDING \<or>
      (offchainVotingResultsStatus r = STANDBY \<and> length (proposalsForVotingResults r) > 0) \<or>
      offchainVotingResultsStatus r = PENDING)"

text \<open>
  The classification effect. \<open>None\<close> is the early \<^verbatim>\<open>return\<close> of its first line: the
  partition is not computed and the state is not set. \<open>Some fp\<close> is the partition computed
  and handed to \<^verbatim>\<open>setFilteredProposals\<close>.
\<close>

definition classificationEffect :: "bool \<Rightarrow> 'v ProposalsRender \<Rightarrow> 'v FilteredProposals option" where
  "classificationEffect includeProposalsExistingOnlyOffchain r =
     (if proposalsStatus r \<noteq> FULFILLED then None
      else Some (classifyProposals includeProposalsExistingOnlyOffchain
                   (offchainVotingResults r) (proposals r)))"

text \<open>
  \<^verbatim>\<open>setFilteredProposals((prevState) => ({...prevState, ...filteredProposalsToSet}))\<close>:
  the four lists of the previous state are overwritten.
\<close>

definition setFilteredProposals ::
  "'v FilteredProposals option \<Rightarrow> 'v FilteredProposals \<Rightarrow> 'v FilteredProposals" where
  "setFilteredProposals toSet prevState =
     (case toSet of
        None \<Rightarrow> prevState
      | Some fp \<Rightarrow>
          prevState\<lparr>failedProposals := failedProposals fp,
                    nonsponsoredProposals := nonsponsoredProposals fp,
                    passedProposals := passedProposals fp,
                    votingProposals := votingProposals fp\<rparr>)"

definition isTerminal :: "AsyncStatus \<Rightarrow> bool" where
  "isTerminal s = (s = FULFILLED \<or> s = REJECTED)"

section \<open>The total-units fetcher\<close>

subsection \<open>JavaScript numbers of integers\<close>

text \<open>
  \<^verbatim>\<open>Number(s)\<close> of a decimal integer string, and of a big number (which is converted
  through its decimal string), is the IEEE 754 double nearest to the integer, ties to the
  even significand, and an infinity when that rounding reaches \<open>2 ^ 1024\<close>. Such a double
  is an integer itself, so a number is modelled by its integer value.
\<close>

datatype number = Finite int | PosInfinity | NegInfinity

fun bitLength :: "nat \<Rightarrow> nat" where
  "bitLength n = (if n = 0 then 0 else Suc (bitLength (n div 2)))"

declare bitLength.simps [simp del]

definition roundToDouble :: "nat \<Rightarrow> nat" where
  "roundToDouble m =
     (let e = bitLength m - 53; q = m div 2 ^ e; r = m mod 2 ^ e
      in if 2 * r > 2 ^ e \<or> (2 * r = 2 ^ e \<and> odd q) then (q + 1) * 2 ^ e else q * 2 ^ e)"

definition jsNumber :: "int \<Rightarrow> number" where
  "jsNumber n =
     (let r = roundToDouble (nat \<bar>n\<bar>)
      in if r \<ge> 2 ^ 1024 then (if n < 0 then NegInfinity else PosInfinity)
         else Finite (if n < 0 then - int r else int r))"

fun numberIsNonNegative :: "number \<Rightarrow> bool" where
  "numberIsNonNegative (Finite x) = (0 \<le> x)"
| "numberIsNonNegative PosInfinity = True"
| "numberIsNonNegative NegInfinity = False"

fun numberIsNegative :: "number \<Rightarrow> bool" where
  "numberIsNegative (Finite x) = (x < 0)"
| "numberIsNegative PosInfinity = False"
| "numberIsNegative NegInfinity = True"

subsection \<open>What the hook reads\<close>

text \<open>
  Modelled from the spec: the declaration of \<^verbatim>\<open>SubgraphNetworkStatus\<close> is not among the
  sources; the spec gives the health signal the two states OK and NOT_OK.
\<close>

datatype SubgraphNetworkStatus = OK | NOT_OK

datatype Error = Error string

text \<open>
  The bank extension contract: \<^verbatim>\<open>instance.methods.balanceOf(account, token).call()\<close>
  either throws or replies with the decimal string of an unsigned integer, modelled by
  the integer.
\<close>

record BankExtension =
  balanceOf :: "string \<Rightarrow> string \<Rightarrow> Error + nat"

text \<open>
  The constants \<^verbatim>\<open>GUILD_ADDRESS\<close>, \<^verbatim>\<open>TOTAL_ADDRESS\<close> and \<^verbatim>\<open>UNITS_ADDRESS\<close> are imported
  from \<^verbatim>\<open>../config\<close>, which is not among the sources: they are parameters.
\<close>

record Config =
  GUILD_ADDRESS :: string
  TOTAL_ADDRESS :: string
  UNITS_ADDRESS :: string

text \<open>
  The reply of the indexing service: \<^verbatim>\<open>data.tributeDaos\<close>, each entry with the decimal
  strings \<^verbatim>\<open>totalUnits\<close> and \<^verbatim>\<open>totalUnitsIssued\<close>, modelled by the integers.
\<close>

record TributeDao =
  daoTotalUnits :: int
  daoTotalUnitsIssued :: int

record GqlData =
  tributeDaos :: "TributeDao list"

text \<open>
  The selectors and the lazy query of a render: the registry address
  (\<^verbatim>\<open>DaoRegistryContract?.contractAddress\<close>), the bank extension contract, the health
  signal, and \<^verbatim>\<open>{called, loading, data, error}\<close> of \<^verbatim>\<open>useLazyQuery\<close>.
\<close>

record HookRender =
  contractAddress :: "string option"
  BankExtensionContract :: "BankExtension option"
  subgraphNetworkStatus :: SubgraphNetworkStatus
  called :: bool
  loading :: bool
  data :: "GqlData option"
  error :: "Error option"

record UseDaoTotalUnitsReturn =
  totalUnits :: "number option"
  totalUnitsError :: "Error option"
  totalUnitsIssued :: "number option"
  totalUnitsStatus :: AsyncStatus

text \<open>A query issued to the indexing service, with its \<^verbatim>\<open>id\<close> variable.\<close>

datatype IndexerQuery = GET_DAO "string option"

subsection \<open>The direct-contract path\<close>

text \<open>The \<^verbatim>\<open>catch\<close> block of \<^verbatim>\<open>getTotalUnitsFromExtension\<close>.\<close>

definition extensionCatch :: "Error \<Rightarrow> UseDaoTotalUnitsReturn \<Rightarrow> UseDaoTotalUnitsReturn" where
  "extensionCatch e st =
     st\<lparr>totalUnits := None, totalUnitsIssued := None, totalUnitsError := Some e,
        totalUnitsStatus := REJECTED\<rparr>"

text \<open>
  \<^verbatim>\<open>getTotalUnitsFromExtension\<close>, as the state it leaves once its reads have completed.
  The subtraction is the signed one of big numbers.
\<close>

definition getTotalUnitsFromExtension ::
  "Config \<Rightarrow> HookRender \<Rightarrow> UseDaoTotalUnitsReturn \<Rightarrow> UseDaoTotalUnitsReturn" where
  "getTotalUnitsFromExtension cfg h st =
     (case BankExtensionContract h of
        None \<Rightarrow> st
      | Some c \<Rightarrow>
          let st1 = st\<lparr>totalUnitsStatus := PENDING\<rparr> in
          (case balanceOf c (TOTAL_ADDRESS cfg) (UNITS_ADDRESS cfg) of
             Inl e \<Rightarrow> extensionCatch e st1
           | Inr totalUnitsToSet \<Rightarrow>
               (case balanceOf c (GUILD_ADDRESS cfg) (UNITS_ADDRESS cfg) of
                  Inl e \<Rightarrow> extensionCatch e st1
                | Inr balanceOfGuildUnits \<Rightarrow>
                    let totalUnitsIssuedToSet = int totalUnitsToSet - int balanceOfGuildUnits
                    in st1\<lparr>totalUnits := Some (jsNumber (int totalUnitsToSet)),
                           totalUnitsIssued := Some (jsNumber totalUnitsIssuedToSet),
                           totalUnitsStatus := FULFILLED\<rparr>)))"

subsection \<open>The indexer path\<close>

text \<open>
  \<^verbatim>\<open>getTotalUnitsFromSubgraph\<close>. Reading \<^verbatim>\<open>data.tributeDaos[0]\<close> of an empty reply throws,
  and the \<^verbatim>\<open>catch\<close> block falls back to the direct-contract path, as it does for a query
  error.
\<close>

definition getTotalUnitsFromSubgraph ::
  "Config \<Rightarrow> HookRender \<Rightarrow> UseDaoTotalUnitsReturn \<Rightarrow> UseDaoTotalUnitsReturn" where
  "getTotalUnitsFromSubgraph cfg h st =
     (let st1 = st\<lparr>totalUnitsStatus := PENDING\<rparr> in
      case (if loading h then None else data h) of
        Some d \<Rightarrow>
          (case tributeDaos d of
             [] \<Rightarrow> getTotalUnitsFromExtension cfg h st1
           | dao # _ \<Rightarrow>
               st1\<lparr>totalUnits := Some (jsNumber (daoTotalUnits dao)),
                   totalUnitsIssued := Some (jsNumber (daoTotalUnitsIssued dao)),
                   totalUnitsStatus := FULFILLED\<rparr>)
      | None \<Rightarrow>
          (case error h of
             Some e \<Rightarrow> getTotalUnitsFromExtension cfg h st1
           | None \<Rightarrow> st1))"

subsection \<open>The effects\<close>

text \<open>
  The first effect: \<^verbatim>\<open>if (!called) getDaoFromSubgraphResult()\<close>. The queries it issues,
  with the lower-cased registry address as the \<^verbatim>\<open>id\<close> variable. The effect reads
  \<^verbatim>\<open>called\<close> only, not the health signal. \<^verbatim>\<open>String.prototype.toLowerCase\<close> is a
  built-in of the language, defined on all of Unicode: it is a parameter.
\<close>

definition lazyQueryEffect :: "(string \<Rightarrow> string) \<Rightarrow> HookRender \<Rightarrow> IndexerQuery list" where
  "lazyQueryEffect toLowerCase h =
     (if \<not> called h then [GET_DAO (map_option toLowerCase (contractAddress h))] else [])"

text \<open>The second effect, on the health signal. An absent or empty address is falsy.\<close>

definition healthSignalEffect ::
  "Config \<Rightarrow> HookRender \<Rightarrow> UseDaoTotalUnitsReturn \<Rightarrow> UseDaoTotalUnitsReturn" where
  "healthSignalEffect cfg h st =
     (if subgraphNetworkStatus h = OK then
        (if \<not> loading h \<and> (case contractAddress h of None \<Rightarrow> False | Some a \<Rightarrow> a \<noteq> [])
         then getTotalUnitsFromSubgraph cfg h st
         else st)
      else getTotalUnitsFromExtension cfg h st)"

text \<open>
  Both effects of a render: the queries issued to the indexing service and the state the
  hook is left in.
\<close>

definition runEffects ::
  "(string \<Rightarrow> string) \<Rightarrow> Config \<Rightarrow> HookRender \<Rightarrow> UseDaoTotalUnitsReturn \<Rightarrow>
   IndexerQuery list \<times> UseDaoTotalUnitsReturn" where
  "runEffects toLowerCase cfg h st =
     (lazyQueryEffect toLowerCase h, healthSignalEffect cfg h st)"

text \<open>The state of the hook before any effect has run.\<close>

definition initialReturn :: UseDaoTotalUnitsReturn where
  "initialReturn =
     \<lparr>totalUnits = None, totalUnitsError = None, totalUnitsIssued = None,
      totalUnitsStatus = STANDBY\<rparr>"

section \<open>Concrete inputs\<close>

text \<open>
  A proposal with one snapshot vote, the identifier \<^verbatim>\<open>0xAbC1\<close>, the given flags and
  vote state, and a tally not yet reported on chain; and a collection of off-chain results
  with a passing tally for that identifier.
\<close>

definition exampleVotes :: ProposalVotes where
  "exampleVotes = \<lparr>OffchainVotingContract = Some \<lparr>reporter = BURN_ADDRESS\<rparr>\<rparr>"

definition exampleProposal :: "nat \<Rightarrow> VotingState option \<Rightarrow> unit ProposalData" where
  "exampleProposal fl voteState =
     \<lparr>snapshotProposal = Some \<lparr>idInDAO = Some ''0xAbC1'', votes = Some [()]\<rparr>,
      daoProposal = Some \<lparr>flags = fl\<rparr>,
      daoProposalVotingState = voteState,
      daoProposalVotes = Some exampleVotes\<rparr>"

definition exampleResults :: OffchainVotingResults where
  "exampleResults = [(''0xabc1'', \<lparr>Yes = \<lparr>units = 5\<rparr>, No = \<lparr>units = 2\<rparr>\<rparr>)]"

definition otherResults :: OffchainVotingResults where
  "otherResults = [(''0xabc2'', \<lparr>Yes = \<lparr>units = 5\<rparr>, No = \<lparr>units = 2\<rparr>\<rparr>)]"

definition exampleRender :: "unit ProposalsRender" where
  "exampleRender =
     \<lparr>proposals = [exampleProposal 3 (Some PASS)],
      proposalsStatus = FULFILLED,
      offchainVotingResults = [],
      offchainVotingResultsStatus = PENDING,
      proposalsForVotingResults = [snapshotProposal (exampleProposal 3 (Some PASS))]\<rparr>"

text \<open>
  A configuration, bank extension contracts that reply with the given total and guild
  balances or throw, and a render of the hook whose query has not been called yet.
\<close>

definition exampleConfig :: Config where
  "exampleConfig = \<lparr>GUILD_ADDRESS = ''guild'', TOTAL_ADDRESS = ''total'', UNITS_ADDRESS = ''units''\<rparr>"

definition exampleBank :: "nat \<Rightarrow> nat \<Rightarrow> BankExtension" where
  "exampleBank t g =
     \<lparr>balanceOf = (\<lambda>account token.
        if account = ''total'' then Inr t else if account = ''guild'' then Inr g else Inr 0)\<rparr>"

definition failingBank :: BankExtension where
  "failingBank = \<lparr>balanceOf = (\<lambda>account token. Inl (Error ''call failed''))\<rparr>"

definition guildFailingBank :: BankExtension where
  "guildFailingBank =
     \<lparr>balanceOf = (\<lambda>account token.
        if account = ''total'' then Inr 100 else Inl (Error ''call failed''))\<rparr>"

definition exampleHook :: "SubgraphNetworkStatus \<Rightarrow> BankExtension \<Rightarrow> HookRender" where
  "exampleHook health bank =
     \<lparr>contractAddress = Some ''0xDa0'', BankExtensionContract = Some bank,
      subgraphNetworkStatus = health, called = False, loading = False, data = None,
      error = None\<rparr>"

section \<open>The loop fills each bucket with the proposals classified into it\<close>

lemma bucketList_pushProposal:
  "bucketList b (pushProposal b' p acc) =
     (if b = b' then bucketList b acc @ [p] else bucketList b acc)"
  by (cases b; cases b') simp_all

lemma bucketList_forEachStep:
  "bucketList b (forEachStep incl res acc p) =
     bucketList b acc @ (if classifyProposal incl res p = Some b then [p] else [])"
  by (cases "classifyProposal incl res p") (simp_all add: forEachStep_def bucketList_pushProposal)

lemma bucketList_foldl:
  "bucketList b (foldl (forEachStep incl res) acc ps) =
     bucketList b acc @ filter (\<lambda>p. classifyProposal incl res p = Some b) ps"
  by (induction ps arbitrary: acc) (simp_all add: bucketList_forEachStep)

lemma bucketList_classifyProposals:
  "bucketList b (classifyProposals incl res ps) =
     filter (\<lambda>p. classifyProposal incl res p = Some b) ps"
  by (cases b) (simp_all add: classifyProposals_def bucketList_foldl emptyFilteredProposals_def)

lemma set_bucketList_classifyProposals:
  "set (bucketList b (classifyProposals incl res ps)) =
     {p \<in> set ps. classifyProposal incl res p = Some b}"
  by (simp add: bucketList_classifyProposals)

lemma mem_bucket_iff:
  "p \<in> set (bucketList b (classifyProposals incl res ps)) \<longleftrightarrow>
     p \<in> set ps \<and> classifyProposal incl res p = Some b"
  by (simp add: bucketList_classifyProposals)

lemma mem_failedProposals_iff:
  "p \<in> set (failedProposals (classifyProposals incl res ps)) \<longleftrightarrow>
     p \<in> set ps \<and> classifyProposal incl res p = Some Failed"
  using mem_bucket_iff [of p Failed] by simp

lemma mem_nonsponsoredProposals_iff:
  "p \<in> set (nonsponsoredProposals (classifyProposals incl res ps)) \<longleftrightarrow>
     p \<in> set ps \<and> classifyProposal incl res p = Some NonSponsored"
  using mem_bucket_iff [of p NonSponsored] by simp

lemma mem_passedProposals_iff:
  "p \<in> set (passedProposals (classifyProposals incl res ps)) \<longleftrightarrow>
     p \<in> set ps \<and> classifyProposal incl res p = Some Passed"
  using mem_bucket_iff [of p Passed] by simp

lemma mem_votingProposals_iff:
  "p \<in> set (votingProposals (classifyProposals incl res ps)) \<longleftrightarrow>
     p \<in> set ps \<and> classifyProposal incl res p = Some Voting"
  using mem_bucket_iff [of p Voting] by simp

lemmas mem_buckets =
  mem_failedProposals_iff mem_nonsponsoredProposals_iff mem_passedProposals_iff
  mem_votingProposals_iff

lemma findOffchainResult_None_iff:
  "findOffchainResult res p = None \<longleftrightarrow>
     (\<forall>entry \<in> set res. normalizeString (fst entry) \<noteq> normalizeString (idInDAOOrEmpty p))"
  by (auto simp: findOffchainResult_def find_None_iff)

lemma classifyProposal_no_vote_state:
  "daoProposal p = Some d \<Longrightarrow> daoProposalVotingState p = None \<Longrightarrow>
   classifyProposal incl res p =
     (if incl \<or> proposalHasFlag EXISTS (flags d) then Some NonSponsored else None)"
  by (simp add: classifyProposal_def)

lemma classifyProposal_pass:
  "daoProposal p = Some d \<Longrightarrow> daoProposalVotingState p = Some voteState \<Longrightarrow>
   proposalHasVotingState PASS voteState \<Longrightarrow>
   proposalHasFlag SPONSORED (flags d) \<or> proposalHasFlag PROCESSED (flags d) \<Longrightarrow>
   classifyProposal incl res p = Some Passed"
  by (simp add: classifyProposal_def)

lemma classifyProposal_no_result:
  "daoProposal p = Some d \<Longrightarrow> daoProposalVotingState p = Some voteState \<Longrightarrow>
   findOffchainResult res p = None \<Longrightarrow>
   classifyProposal incl res p =
     (if proposalHasVotingState PASS voteState \<and>
         (proposalHasFlag SPONSORED (flags d) \<or> proposalHasFlag PROCESSED (flags d))
      then Some Passed else None)"
  by (simp add: classifyProposal_def)

lemma classifyProposal_vote_state_not_NonSponsored:
  "daoProposalVotingState p = Some voteState \<Longrightarrow>
   classifyProposal incl res p \<noteq> Some NonSponsored"
  by (simp add: classifyProposal_def Let_def split: option.splits)

lemma classifyProposal_voting_phase:
  "daoProposal p = Some d \<Longrightarrow> daoProposalVotingState p = Some voteState \<Longrightarrow>
   proposalHasVotingState GRACE_PERIOD voteState \<or>
   proposalHasVotingState IN_PROGRESS voteState \<Longrightarrow>
   proposalHasFlag SPONSORED (flags d) \<Longrightarrow>
   findOffchainResult res p = Some r \<Longrightarrow>
   classifyProposal incl res p =
     (if offchainResultNotYetSubmitted p d \<and> (noSnapshotVotes p \<or> \<not> didPassSimpleMajority r)
      then Some Failed else Some Voting)"
  by (auto simp add: classifyProposal_def Let_def proposalHasVotingState_def)

lemma classifyProposal_Passed_iff:
  "classifyProposal incl res p = Some Passed \<longleftrightarrow>
     (\<exists>d voteState. daoProposal p = Some d \<and> daoProposalVotingState p = Some voteState \<and>
        proposalHasVotingState PASS voteState \<and>
        (proposalHasFlag SPONSORED (flags d) \<or> proposalHasFlag PROCESSED (flags d)))"
  by (auto simp add: classifyProposal_def Let_def split: option.splits)

lemma normalizeString_examples:
  "normalizeString ''0xAbC1'' = ''0xabc1''"
  "normalizeString ''0xabc1'' = ''0xabc1''"
  by code_simp+

section \<open>The statements of the callback push what the classification says\<close>

lemmas flow_defs = thenDo_def returnNow_def ifThen_def endOfCallback_def pushTo_def

lemma forEachCallback_forEachStep:
  "forEachCallback incl res p acc = forEachStep incl res acc p"
proof (cases "daoProposal p")
  case None
  then show ?thesis
    by (simp add: forEachCallback_def forEachStep_def classifyProposal_def flow_defs)
next
  case d: (Some d)
  show ?thesis
  proof (cases "daoProposalVotingState p")
    case None
    with d show ?thesis
      by (simp add: forEachCallback_def forEachStep_def classifyProposal_def flow_defs
          votingStateIs_def)
  next
    case vs: (Some voteState)
    show ?thesis
    proof (cases "findOffchainResult res p")
      case None
      with d vs show ?thesis
        by (simp add: forEachCallback_def forEachStep_def classifyProposal_def flow_defs
            votingStateIs_def)
    next
      case (Some r)
      with d vs show ?thesis
        by (simp add: forEachCallback_def forEachStep_def classifyProposal_def flow_defs
            votingStateIs_def Let_def)
    qed
  qed
qed

lemma proposalsForEach_classifyProposals:
  "proposalsForEach incl res ps = classifyProposals incl res ps"
  by (simp add: proposalsForEach_def classifyProposals_def forEachCallback_forEachStep)

lemma placedCount_forEachCallback:
  "placedCount (forEachCallback incl res p acc) \<le> Suc (placedCount acc)"
proof (cases "classifyProposal incl res p")
  case None
  then show ?thesis by (simp add: forEachCallback_forEachStep forEachStep_def)
next
  case (Some b)
  then show ?thesis
    by (cases b) (simp_all add: forEachCallback_forEachStep forEachStep_def placedCount_def)
qed

lemma placedCount_foldl:
  "placedCount (foldl (\<lambda>acc p. forEachCallback incl res p acc) acc ps)
     \<le> placedCount acc + length ps"
proof (induction ps arbitrary: acc)
  case Nil
  then show ?case by simp
next
  case (Cons p ps)
  have "placedCount (foldl (\<lambda>acc p. forEachCallback incl res p acc)
          (forEachCallback incl res p acc) ps)
        \<le> placedCount (forEachCallback incl res p acc) + length ps"
    by (rule Cons.IH)
  also have "\<dots> \<le> Suc (placedCount acc) + length ps"
    using placedCount_forEachCallback [of incl res p acc] by simp
  finally show ?case by simp
qed

lemma mem_proposalsForEach:
  "p \<in> set (failedProposals (proposalsForEach incl res ps)) \<longleftrightarrow>
     p \<in> set ps \<and> classifyProposal incl res p = Some Failed"
  "p \<in> set (nonsponsoredProposals (proposalsForEach incl res ps)) \<longleftrightarrow>
     p \<in> set ps \<and> classifyProposal incl res p = Some NonSponsored"
  "p \<in> set (passedProposals (proposalsForEach incl res ps)) \<longleftrightarrow>
     p \<in> set ps \<and> classifyProposal incl res p = Some Passed"
  "p \<in> set (votingProposals (proposalsForEach incl res ps)) \<longleftrightarrow>
     p \<in> set ps \<and> classifyProposal incl res p = Some Voting"
  by (simp_all add: proposalsForEach_classifyProposals mem_buckets)

section \<open>Numbers\<close>

lemma bitLength_le: "m < 2 ^ k \<Longrightarrow> bitLength m \<le> k"
proof (induction k arbitrary: m)
  case 0
  then show ?case by (simp add: bitLength.simps)
next
  case (Suc k)
  show ?case
  proof (cases "m = 0")
    case True
    then show ?thesis by (simp add: bitLength.simps)
  next
    case False
    from Suc.prems have "m div 2 < 2 ^ k" by simp
    then have "bitLength (m div 2) \<le> k" by (rule Suc.IH)
    with False show ?thesis by (subst bitLength.simps) simp
  qed
qed

lemma bitLength_lower: "0 < m \<Longrightarrow> 2 ^ (bitLength m - 1) \<le> m"
proof (induction m rule: bitLength.induct)
  case (1 n)
  show ?case
  proof (cases "n div 2 = 0")
    case True
    with "1.prems" have "n = 1" by (simp add: div_eq_0_iff) 
    then show ?thesis by (simp add: bitLength.simps)
  next
    case False
    then have pos: "0 < n div 2" by simp
    with "1.IH" "1.prems" have ih: "2 ^ (bitLength (n div 2) - 1) \<le> n div 2" by simp
    from pos have "0 < bitLength (n div 2)" by (subst bitLength.simps) simp
    then have "bitLength n - 1 = Suc (bitLength (n div 2) - 1)"
      using "1.prems" by (subst bitLength.simps) simp
    then have "(2::nat) ^ (bitLength n - 1) = 2 * 2 ^ (bitLength (n div 2) - 1)" by simp
    also have "\<dots> \<le> 2 * (n div 2)" using ih by simp
    also have "\<dots> \<le> n" by simp
    finally show ?thesis .
  qed
qed

lemma roundToDouble_exact: "m \<le> 2 ^ 53 \<Longrightarrow> roundToDouble m = m"
proof (cases "m = 2 ^ 53")
  case True
  have "bitLength (2 ^ 53) = 54" by (simp add: bitLength.simps)
  with True show ?thesis by (simp add: roundToDouble_def)
next
  case False
  assume "m \<le> 2 ^ 53"
  with False have "m < 2 ^ 53" by simp
  then have "bitLength m \<le> 53" by (rule bitLength_le)
  then show ?thesis by (simp add: roundToDouble_def)
qed

lemma roundToDouble_pos: "0 < m \<Longrightarrow> 0 < roundToDouble m"
proof -
  assume pos: "0 < m"
  define e where "e = bitLength m - 53"
  have "(2::nat) ^ e \<le> 2 ^ (bitLength m - 1)"
    unfolding e_def by (rule power_increasing) simp_all
  also have "\<dots> \<le> m" using pos by (rule bitLength_lower)
  finally have "2 ^ e \<le> m" .
  then have "0 < m div 2 ^ e" by (simp add: div_greater_zero_iff)
  then show ?thesis
    unfolding roundToDouble_def e_def [symmetric] Let_def by simp
qed

lemma jsNumber_exact: "\<bar>n\<bar> \<le> 2 ^ 53 \<Longrightarrow> jsNumber n = Finite n"
proof -
  assume b: "\<bar>n\<bar> \<le> 2 ^ 53"
  then have "nat \<bar>n\<bar> \<le> 2 ^ 53" by simp
  then have r: "roundToDouble (nat \<bar>n\<bar>) = nat \<bar>n\<bar>" by (rule roundToDouble_exact)
  have "nat \<bar>n\<bar> < 2 ^ 1024"
    using \<open>nat \<bar>n\<bar> \<le> 2 ^ 53\<close> by simp
  then show ?thesis by (auto simp add: jsNumber_def r Let_def)
qed

lemma jsNumber_nonneg: "0 \<le> n \<Longrightarrow> numberIsNonNegative (jsNumber n)"
  by (simp add: jsNumber_def Let_def)

lemma jsNumber_neg: "n < 0 \<Longrightarrow> numberIsNegative (jsNumber n)"
proof -
  assume "n < 0"
  then have "0 < nat \<bar>n\<bar>" by simp
  then have "0 < roundToDouble (nat \<bar>n\<bar>)" by (rule roundToDouble_pos)
  with \<open>n < 0\<close> show ?thesis by (simp add: jsNumber_def Let_def)
qed

section \<open>The direct-contract path\<close>

lemma getTotalUnitsFromExtension_fulfilled:
  "BankExtensionContract h = Some c \<Longrightarrow>
   balanceOf c (TOTAL_ADDRESS cfg) (UNITS_ADDRESS cfg) = Inr t \<Longrightarrow>
   balanceOf c (GUILD_ADDRESS cfg) (UNITS_ADDRESS cfg) = Inr g \<Longrightarrow>
   getTotalUnitsFromExtension cfg h st =
     st\<lparr>totalUnits := Some (jsNumber (int t)),
        totalUnitsIssued := Some (jsNumber (int t - int g)),
        totalUnitsStatus := FULFILLED\<rparr>"
  by (simp add: getTotalUnitsFromExtension_def Let_def)

lemma getTotalUnitsFromExtension_rejected:
  "BankExtensionContract h = Some c \<Longrightarrow>
   balanceOf c (TOTAL_ADDRESS cfg) (UNITS_ADDRESS cfg) = Inl e \<or>
   (\<exists>t. balanceOf c (TOTAL_ADDRESS cfg) (UNITS_ADDRESS cfg) = Inr t \<and>
        balanceOf c (GUILD_ADDRESS cfg) (UNITS_ADDRESS cfg) = Inl e) \<Longrightarrow>
   getTotalUnitsFromExtension cfg h st =
     st\<lparr>totalUnits := None, totalUnitsIssued := None, totalUnitsError := Some e,
        totalUnitsStatus := REJECTED\<rparr>"
  by (auto simp add: getTotalUnitsFromExtension_def Let_def extensionCatch_def)

lemma getTotalUnitsFromExtension_indexer_independent:
  "getTotalUnitsFromExtension cfg (h\<lparr>loading := l, data := dt, error := er\<rparr>) st =
   getTotalUnitsFromExtension cfg h st"
  by (simp add: getTotalUnitsFromExtension_def)

section \<open>Claims about the proposal classifier\<close>

text \<open>
  C7. A proposal with an on-chain record, the vote state PASS and the SPONSORED or the
  PROCESSED flag is placed in the passed bucket, and in no other, whatever the off-chain
  results collection and the configuration are.
\<close>

theorem passed_bucket:
  assumes "p \<in> set ps"
    and "daoProposal p = Some d"
    and "daoProposalVotingState p = Some voteState"
    and "proposalHasVotingState PASS voteState"
    and "proposalHasFlag SPONSORED (flags d) \<or> proposalHasFlag PROCESSED (flags d)"
  shows "p \<in> set (passedProposals (classifyProposals incl res ps)) \<and>
         p \<notin> set (failedProposals (classifyProposals incl res ps)) \<and>
         p \<notin> set (nonsponsoredProposals (classifyProposals incl res ps)) \<and>
         p \<notin> set (votingProposals (classifyProposals incl res ps))"
  using assms classifyProposal_pass [OF assms(2-5), of incl res]
  by (simp add: mem_buckets)

theorem passed_bucket_witness:
  "exampleProposal 3 (Some PASS) \<in> set [exampleProposal 3 (Some PASS)] \<and>
   daoProposal (exampleProposal 3 (Some PASS)) = Some \<lparr>flags = 3\<rparr> \<and>
   daoProposalVotingState (exampleProposal 3 (Some PASS)) = Some PASS \<and>
   proposalHasVotingState PASS PASS \<and>
   proposalHasFlag SPONSORED (flags \<lparr>flags = 3\<rparr>) \<and>
   exampleProposal 3 (Some PASS)
     \<in> set (passedProposals
              (classifyProposals False exampleResults [exampleProposal 3 (Some PASS)]))"
  using passed_bucket [where p = "exampleProposal 3 (Some PASS)"
      and ps = "[exampleProposal 3 (Some PASS)]" and d = "\<lparr>flags = 3\<rparr>" and voteState = PASS
      and incl = False and res = exampleResults]
  by (simp add: exampleProposal_def proposalHasVotingState_def proposalHasFlag_def bit_Suc_0_iff)

text \<open>
  C8. A proposal with an on-chain record and no recorded vote state is placed in the
  non-sponsored bucket if and only if the include-offchain-only option is set or the
  proposal carries the EXISTS flag (and it is one of the proposals classified); it is
  placed in no other bucket, so otherwise in none.
\<close>

theorem nonsponsored_bucket:
  assumes "daoProposal p = Some d"
    and "daoProposalVotingState p = None"
  shows "(p \<in> set (nonsponsoredProposals (classifyProposals incl res ps)) \<longleftrightarrow>
            p \<in> set ps \<and> (incl \<or> proposalHasFlag EXISTS (flags d))) \<and>
         p \<notin> set (failedProposals (classifyProposals incl res ps)) \<and>
         p \<notin> set (passedProposals (classifyProposals incl res ps)) \<and>
         p \<notin> set (votingProposals (classifyProposals incl res ps))"
  using classifyProposal_no_vote_state [OF assms, of incl res]
  by (simp add: mem_buckets)

theorem nonsponsored_bucket_witness:
  "daoProposal (exampleProposal 1 None) = Some \<lparr>flags = 1\<rparr> \<and>
   daoProposalVotingState (exampleProposal 1 None) = None \<and>
   exampleProposal 1 None
     \<in> set (nonsponsoredProposals
              (classifyProposals False exampleResults [exampleProposal 1 None])) \<and>
   daoProposal (exampleProposal 0 None) = Some \<lparr>flags = 0\<rparr> \<and>
   daoProposalVotingState (exampleProposal 0 None) = None \<and>
   exampleProposal 0 None
     \<notin> set (nonsponsoredProposals
              (classifyProposals False exampleResults [exampleProposal 0 None])) \<and>
   exampleProposal 0 None
     \<in> set (nonsponsoredProposals
              (classifyProposals True exampleResults [exampleProposal 0 None]))"
  using nonsponsored_bucket [where p = "exampleProposal 1 None" and d = "\<lparr>flags = 1\<rparr>"
      and incl = False and res = exampleResults and ps = "[exampleProposal 1 None]"]
    nonsponsored_bucket [where p = "exampleProposal 0 None" and d = "\<lparr>flags = 0\<rparr>"
      and incl = False and res = exampleResults and ps = "[exampleProposal 0 None]"]
    nonsponsored_bucket [where p = "exampleProposal 0 None" and d = "\<lparr>flags = 0\<rparr>"
      and incl = True and res = exampleResults and ps = "[exampleProposal 0 None]"]
  by (simp add: exampleProposal_def proposalHasFlag_def bit_Suc_0_iff)

text \<open>
  C10. A proposal with an on-chain record and a recorded vote state that is not placed in
  the passed bucket is placed in no bucket at all when no entry of the off-chain results
  collection has its normalized identifier, whatever its vote state and flags are.
\<close>

theorem no_offchain_result_no_bucket:
  assumes "daoProposal p = Some d"
    and "daoProposalVotingState p = Some voteState"
    and "p \<notin> set (passedProposals (classifyProposals incl res ps))"
    and "\<forall>entry \<in> set res. normalizeString (fst entry) \<noteq> normalizeString (idInDAOOrEmpty p)"
  shows "p \<notin> set (failedProposals (classifyProposals incl res ps)) \<and>
         p \<notin> set (nonsponsoredProposals (classifyProposals incl res ps)) \<and>
         p \<notin> set (passedProposals (classifyProposals incl res ps)) \<and>
         p \<notin> set (votingProposals (classifyProposals incl res ps))"
proof -
  from assms(4) have "findOffchainResult res p = None"
    by (simp add: findOffchainResult_None_iff)
  from classifyProposal_no_result [OF assms(1,2) this, of incl]
  have "classifyProposal incl res p = Some Passed \<or> classifyProposal incl res p = None"
    by (simp split: if_splits)
  with assms(3) show ?thesis
    by (auto simp add: mem_buckets)
qed

theorem no_offchain_result_no_bucket_witness:
  "daoProposal (exampleProposal 3 (Some NOT_PASS)) = Some \<lparr>flags = 3\<rparr> \<and>
   daoProposalVotingState (exampleProposal 3 (Some NOT_PASS)) = Some NOT_PASS \<and>
   exampleProposal 3 (Some NOT_PASS)
     \<notin> set (passedProposals
              (classifyProposals False otherResults [exampleProposal 3 (Some NOT_PASS)])) \<and>
   normalizeString (fst (hd otherResults))
     \<noteq> normalizeString (idInDAOOrEmpty (exampleProposal 3 (Some NOT_PASS))) \<and>
   exampleProposal 3 (Some NOT_PASS)
     \<notin> set (failedProposals
              (classifyProposals False otherResults [exampleProposal 3 (Some NOT_PASS)])) \<and>
   exampleProposal 3 (Some NOT_PASS)
     \<notin> set (votingProposals
              (classifyProposals False otherResults [exampleProposal 3 (Some NOT_PASS)]))"
proof -
  have ne: "normalizeString ''0xabc2'' \<noteq> normalizeString ''0xAbC1''"
    by (simp add: normalizeString_def toLowerChar_def)
  have notpassed: "exampleProposal 3 (Some NOT_PASS)
     \<notin> set (passedProposals
              (classifyProposals False otherResults [exampleProposal 3 (Some NOT_PASS)]))"
    by (simp add: mem_buckets classifyProposal_Passed_iff exampleProposal_def
        proposalHasVotingState_def)
  show ?thesis
    using ne notpassed
      no_offchain_result_no_bucket [where p = "exampleProposal 3 (Some NOT_PASS)"
        and d = "\<lparr>flags = 3\<rparr>" and voteState = NOT_PASS and incl = False
        and res = otherResults and ps = "[exampleProposal 3 (Some NOT_PASS)]"]
    by (simp add: exampleProposal_def otherResults_def idInDAOOrEmpty_def)
qed

text \<open>
  C4. For every list of proposals and every off-chain results collection, the four lists
  that the statements of the callback fill are pairwise disjoint, and together they have
  at most one entry for each proposal of the input: a proposal placed in a bucket is in
  exactly one of them, and no run of the callback pushes twice.
\<close>

theorem buckets_disjoint:
  "set (failedProposals (proposalsForEach incl res ps)) \<inter>
     set (nonsponsoredProposals (proposalsForEach incl res ps)) = {} \<and>
   set (failedProposals (proposalsForEach incl res ps)) \<inter>
     set (passedProposals (proposalsForEach incl res ps)) = {} \<and>
   set (failedProposals (proposalsForEach incl res ps)) \<inter>
     set (votingProposals (proposalsForEach incl res ps)) = {} \<and>
   set (nonsponsoredProposals (proposalsForEach incl res ps)) \<inter>
     set (passedProposals (proposalsForEach incl res ps)) = {} \<and>
   set (nonsponsoredProposals (proposalsForEach incl res ps)) \<inter>
     set (votingProposals (proposalsForEach incl res ps)) = {} \<and>
   set (passedProposals (proposalsForEach incl res ps)) \<inter>
     set (votingProposals (proposalsForEach incl res ps)) = {} \<and>
   length (failedProposals (proposalsForEach incl res ps)) +
   length (nonsponsoredProposals (proposalsForEach incl res ps)) +
   length (passedProposals (proposalsForEach incl res ps)) +
   length (votingProposals (proposalsForEach incl res ps)) \<le> length ps"
proof -
  have "placedCount (proposalsForEach incl res ps) \<le> length ps"
    using placedCount_foldl [of incl res emptyFilteredProposals ps]
    by (simp add: proposalsForEach_def placedCount_def emptyFilteredProposals_def)
  then show ?thesis
    by (auto simp add: mem_proposalsForEach placedCount_def)
qed

text \<open>
  C1, as stated: a proposal with an on-chain record, the vote state GRACE_PERIOD or
  IN_PROGRESS and the SPONSORED flag, for which the off-chain results collection has no
  result, is placed in the voting bucket. It fails: with an empty collection the callback
  returns at the lookup, and the proposal is in no bucket.
\<close>

theorem voting_without_result_counterexample:
  "daoProposal (exampleProposal 3 (Some IN_PROGRESS)) = Some \<lparr>flags = 3\<rparr> \<and>
   daoProposalVotingState (exampleProposal 3 (Some IN_PROGRESS)) = Some IN_PROGRESS \<and>
   proposalHasFlag SPONSORED (flags \<lparr>flags = 3\<rparr>) \<and>
   findOffchainResult [] (exampleProposal 3 (Some IN_PROGRESS)) = None \<and>
   exampleProposal 3 (Some IN_PROGRESS)
     \<notin> set (votingProposals
              (classifyProposals False [] [exampleProposal 3 (Some IN_PROGRESS)]))"
  by (simp add: mem_buckets classifyProposal_def exampleProposal_def findOffchainResult_def
      proposalHasFlag_def proposalHasVotingState_def bit_Suc_0_iff)

text \<open>
  C1, amended: such a proposal is placed in no bucket while the collection has no result
  for it. Once a result is there, it is placed in the voting bucket, unless its tally is
  not yet submitted on chain (vote state GRACE_PERIOD, reporter the burn address) and it
  has no snapshot votes or the result did not pass: then it is placed in the failed one.
\<close>

theorem voting_phase_bucket:
  assumes "p \<in> set ps"
    and "daoProposal p = Some d"
    and "daoProposalVotingState p = Some voteState"
    and "proposalHasVotingState GRACE_PERIOD voteState \<or>
         proposalHasVotingState IN_PROGRESS voteState"
    and "proposalHasFlag SPONSORED (flags d)"
  shows "case findOffchainResult res p of
           None \<Rightarrow>
             p \<notin> set (failedProposals (classifyProposals incl res ps)) \<and>
             p \<notin> set (nonsponsoredProposals (classifyProposals incl res ps)) \<and>
             p \<notin> set (passedProposals (classifyProposals incl res ps)) \<and>
             p \<notin> set (votingProposals (classifyProposals incl res ps))
         | Some r \<Rightarrow>
             if offchainResultNotYetSubmitted p d \<and>
                (noSnapshotVotes p \<or> \<not> didPassSimpleMajority r)
             then p \<in> set (failedProposals (classifyProposals incl res ps)) \<and>
                  p \<notin> set (votingProposals (classifyProposals incl res ps))
             else p \<in> set (votingProposals (classifyProposals incl res ps)) \<and>
                  p \<notin> set (failedProposals (classifyProposals incl res ps))"
proof (cases "findOffchainResult res p")
  case None
  from assms(4) have "\<not> proposalHasVotingState PASS voteState"
    by (auto simp add: proposalHasVotingState_def)
  with classifyProposal_no_result [OF assms(2,3) None, of incl]
  have "classifyProposal incl res p = None" by simp
  with None show ?thesis by (simp add: mem_buckets)
next
  case (Some r)
  from classifyProposal_voting_phase [OF assms(2-5) Some, of incl] assms(1) Some
  show ?thesis by (simp add: mem_buckets)
qed

theorem voting_phase_bucket_witness:
  "exampleProposal 3 (Some IN_PROGRESS) \<in> set [exampleProposal 3 (Some IN_PROGRESS)] \<and>
   daoProposal (exampleProposal 3 (Some IN_PROGRESS)) = Some \<lparr>flags = 3\<rparr> \<and>
   daoProposalVotingState (exampleProposal 3 (Some IN_PROGRESS)) = Some IN_PROGRESS \<and>
   proposalHasVotingState IN_PROGRESS IN_PROGRESS \<and>
   proposalHasFlag SPONSORED (flags \<lparr>flags = 3\<rparr>) \<and>
   findOffchainResult exampleResults (exampleProposal 3 (Some IN_PROGRESS))
     = Some \<lparr>Yes = \<lparr>units = 5\<rparr>, No = \<lparr>units = 2\<rparr>\<rparr> \<and>
   exampleProposal 3 (Some IN_PROGRESS)
     \<in> set (votingProposals
              (classifyProposals False exampleResults [exampleProposal 3 (Some IN_PROGRESS)]))"
proof -
  have found: "findOffchainResult exampleResults (exampleProposal 3 (Some IN_PROGRESS))
     = Some \<lparr>Yes = \<lparr>units = 5\<rparr>, No = \<lparr>units = 2\<rparr>\<rparr>"
    by (simp add: findOffchainResult_def exampleResults_def exampleProposal_def
        idInDAOOrEmpty_def normalizeString_examples)
  have notyet: "\<not> offchainResultNotYetSubmitted (exampleProposal 3 (Some IN_PROGRESS))
     \<lparr>flags = 3\<rparr>"
    by (simp add: offchainResultNotYetSubmitted_def exampleProposal_def
        proposalHasVotingState_def)
  show ?thesis
    using found notyet
      voting_phase_bucket [where p = "exampleProposal 3 (Some IN_PROGRESS)"
        and ps = "[exampleProposal 3 (Some IN_PROGRESS)]" and d = "\<lparr>flags = 3\<rparr>"
        and voteState = IN_PROGRESS and res = exampleResults and incl = False]
    by (simp add: exampleProposal_def proposalHasVotingState_def proposalHasFlag_def
        bit_Suc_0_iff)
qed

text \<open>
  C9, as stated: a proposal carrying the PROCESSED flag is never placed in the
  non-sponsored bucket, under any configuration and any vote state. It fails for a
  proposal that has no recorded vote state: the first rule does not read the flag.
\<close>

theorem processed_nonsponsored_counterexample:
  "daoProposal (exampleProposal 5 None) = Some \<lparr>flags = 5\<rparr> \<and>
   proposalHasFlag PROCESSED (flags \<lparr>flags = 5\<rparr>) \<and>
   exampleProposal 5 None
     \<in> set (nonsponsoredProposals
              (classifyProposals False exampleResults [exampleProposal 5 None]))"
  by (simp add: mem_buckets classifyProposal_def exampleProposal_def proposalHasFlag_def
      bit_Suc_0_iff)

text \<open>
  C9, amended: a proposal carrying the PROCESSED flag that has a recorded vote state is
  never placed in the non-sponsored bucket, under any configuration; one with no recorded
  vote state is placed there exactly when the include-offchain-only option is set or it
  carries the EXISTS flag.
\<close>

theorem processed_never_nonsponsored:
  assumes "daoProposal p = Some d"
    and "proposalHasFlag PROCESSED (flags d)"
  shows "case daoProposalVotingState p of
           Some voteState \<Rightarrow>
             p \<notin> set (nonsponsoredProposals (classifyProposals incl res ps))
         | None \<Rightarrow>
             (p \<in> set (nonsponsoredProposals (classifyProposals incl res ps)) \<longleftrightarrow>
                p \<in> set ps \<and> (incl \<or> proposalHasFlag EXISTS (flags d)))"
proof (cases "daoProposalVotingState p")
  case None
  with classifyProposal_no_vote_state [OF assms(1) None, of incl res]
  show ?thesis by (simp add: mem_buckets)
next
  case (Some voteState)
  with classifyProposal_vote_state_not_NonSponsored [OF Some, of incl res]
  show ?thesis by (simp add: mem_buckets)
qed

theorem processed_never_nonsponsored_witness:
  "daoProposal (exampleProposal 7 (Some NOT_PASS)) = Some \<lparr>flags = 7\<rparr> \<and>
   proposalHasFlag PROCESSED (flags \<lparr>flags = 7\<rparr>) \<and>
   daoProposalVotingState (exampleProposal 7 (Some NOT_PASS)) = Some NOT_PASS \<and>
   exampleProposal 7 (Some NOT_PASS)
     \<notin> set (nonsponsoredProposals
              (classifyProposals True exampleResults [exampleProposal 7 (Some NOT_PASS)]))"
  using processed_never_nonsponsored [where p = "exampleProposal 7 (Some NOT_PASS)"
      and d = "\<lparr>flags = 7\<rparr>" and incl = True and res = exampleResults
      and ps = "[exampleProposal 7 (Some NOT_PASS)]"]
  by (simp add: exampleProposal_def proposalHasFlag_def bit_Suc_0_iff)

section \<open>Claims about the classification effect\<close>

text \<open>
  C3, as stated: the partition is never computed while the primary proposal fetch or the
  off-chain tally fetch is in a non-terminal status. It fails: the effect's guard reads
  the status of the primary fetch only, and computes the partition while the tally fetch
  is PENDING.
\<close>

theorem classification_while_tally_pending_counterexample:
  "proposalsStatus exampleRender = FULFILLED \<and>
   offchainVotingResultsStatus exampleRender = PENDING \<and>
   \<not> isTerminal (offchainVotingResultsStatus exampleRender) \<and>
   classificationEffect False exampleRender =
     Some \<lparr>failedProposals = [], nonsponsoredProposals = [],
           passedProposals = [exampleProposal 3 (Some PASS)], votingProposals = []\<rparr>"
  by (simp add: exampleRender_def isTerminal_def classificationEffect_def
      classifyProposals_def forEachStep_def emptyFilteredProposals_def classifyProposal_def
      exampleProposal_def proposalHasVotingState_def proposalHasFlag_def bit_Suc_0_iff)

text \<open>
  C3, amended: the partition is computed exactly when the primary proposal fetch is
  FULFILLED, whatever the status of the off-chain tally fetch is; while the tally fetch is
  PENDING, or STANDBY with proposals queued for it, the loading flag is held.
\<close>

theorem classification_guard:
  "(classificationEffect incl r \<noteq> None \<longleftrightarrow> proposalsStatus r = FULFILLED) \<and>
   (proposalsStatus r = FULFILLED \<longrightarrow>
      classificationEffect incl r =
        Some (classifyProposals incl (offchainVotingResults r) (proposals r))) \<and>
   (offchainVotingResultsStatus r = PENDING \<or>
    offchainVotingResultsStatus r = STANDBY \<and> proposalsForVotingResults r \<noteq> []
      \<longrightarrow> isLoading r)"
  by (auto simp add: classificationEffect_def isLoading_def)

theorem classification_guard_witness:
  "proposalsStatus exampleRender = FULFILLED \<and>
   offchainVotingResultsStatus exampleRender = PENDING \<and>
   classificationEffect False exampleRender =
     Some (classifyProposals False (offchainVotingResults exampleRender)
             (proposals exampleRender)) \<and>
   isLoading exampleRender"
  using classification_guard [of False exampleRender]
  by (simp add: exampleRender_def)

section \<open>Claims about the total-units fetcher\<close>

text \<open>
  C6. When a contract read of the direct-contract path throws, the first or the second
  one, the fetcher sets both numbers to undefined, records the error thrown and reports
  the status REJECTED.
\<close>

theorem contract_failure_rejected:
  assumes "BankExtensionContract h = Some c"
    and "balanceOf c (TOTAL_ADDRESS cfg) (UNITS_ADDRESS cfg) = Inl e \<or>
         (\<exists>t. balanceOf c (TOTAL_ADDRESS cfg) (UNITS_ADDRESS cfg) = Inr t \<and>
              balanceOf c (GUILD_ADDRESS cfg) (UNITS_ADDRESS cfg) = Inl e)"
  shows "totalUnits (getTotalUnitsFromExtension cfg h st) = None \<and>
         totalUnitsIssued (getTotalUnitsFromExtension cfg h st) = None \<and>
         totalUnitsError (getTotalUnitsFromExtension cfg h st) = Some e \<and>
         totalUnitsStatus (getTotalUnitsFromExtension cfg h st) = REJECTED"
  by (simp add: getTotalUnitsFromExtension_rejected [OF assms])

theorem contract_failure_rejected_witness:
  "BankExtensionContract (exampleHook NOT_OK failingBank) = Some failingBank \<and>
   balanceOf failingBank (TOTAL_ADDRESS exampleConfig) (UNITS_ADDRESS exampleConfig)
     = Inl (Error ''call failed'') \<and>
   totalUnits (getTotalUnitsFromExtension exampleConfig (exampleHook NOT_OK failingBank)
     initialReturn) = None \<and>
   totalUnitsIssued (getTotalUnitsFromExtension exampleConfig (exampleHook NOT_OK failingBank)
     initialReturn) = None \<and>
   totalUnitsError (getTotalUnitsFromExtension exampleConfig (exampleHook NOT_OK failingBank)
     initialReturn) = Some (Error ''call failed'') \<and>
   totalUnitsStatus (getTotalUnitsFromExtension exampleConfig (exampleHook NOT_OK failingBank)
     initialReturn) = REJECTED \<and>
   BankExtensionContract (exampleHook OK guildFailingBank) = Some guildFailingBank \<and>
   balanceOf guildFailingBank (TOTAL_ADDRESS exampleConfig) (UNITS_ADDRESS exampleConfig)
     = Inr 100 \<and>
   balanceOf guildFailingBank (GUILD_ADDRESS exampleConfig) (UNITS_ADDRESS exampleConfig)
     = Inl (Error ''call failed'') \<and>
   totalUnitsStatus (getTotalUnitsFromExtension exampleConfig (exampleHook OK guildFailingBank)
     initialReturn) = REJECTED"
  using contract_failure_rejected [where h = "exampleHook NOT_OK failingBank"
      and c = failingBank and cfg = exampleConfig and e = "Error ''call failed''"
      and st = initialReturn]
    contract_failure_rejected [where h = "exampleHook OK guildFailingBank"
      and c = guildFailingBank and cfg = exampleConfig and e = "Error ''call failed''"
      and st = initialReturn]
  by (simp add: exampleHook_def failingBank_def guildFailingBank_def exampleConfig_def)

text \<open>
  C5, as stated: when the direct-contract path completes with the total balance \<open>T\<close> and
  the guild balance \<open>G\<close>, the fetcher reports \<open>totalUnits = T\<close>. It fails for a balance
  that is not a double: the numbers are reported through \<^verbatim>\<open>Number\<close>, and the balance
  \<open>2 ^ 53 + 1\<close> is reported as \<open>2 ^ 53\<close>.
\<close>

theorem total_units_rounded_counterexample:
  "BankExtensionContract (exampleHook NOT_OK (exampleBank 9007199254740993 0))
     = Some (exampleBank 9007199254740993 0) \<and>
   balanceOf (exampleBank 9007199254740993 0) (TOTAL_ADDRESS exampleConfig)
     (UNITS_ADDRESS exampleConfig) = Inr 9007199254740993 \<and>
   balanceOf (exampleBank 9007199254740993 0) (GUILD_ADDRESS exampleConfig)
     (UNITS_ADDRESS exampleConfig) = Inr 0 \<and>
   totalUnitsStatus (getTotalUnitsFromExtension exampleConfig
     (exampleHook NOT_OK (exampleBank 9007199254740993 0)) initialReturn) = FULFILLED \<and>
   totalUnits (getTotalUnitsFromExtension exampleConfig
     (exampleHook NOT_OK (exampleBank 9007199254740993 0)) initialReturn)
     = Some (Finite 9007199254740992) \<and>
   totalUnits (getTotalUnitsFromExtension exampleConfig
     (exampleHook NOT_OK (exampleBank 9007199254740993 0)) initialReturn)
     \<noteq> Some (Finite 9007199254740993)"
proof -
  have "jsNumber 9007199254740993 = Finite 9007199254740992"
    by (simp add: jsNumber_def roundToDouble_def bitLength.simps)
  then show ?thesis
    by (simp add: getTotalUnitsFromExtension_def exampleHook_def exampleBank_def
        exampleConfig_def)
qed

text \<open>
  C5, amended: when the direct-contract path completes with the total balance \<open>T\<close> and
  the guild balance \<open>G\<close>, the fetcher reports the status FULFILLED, \<open>totalUnits\<close> as the
  double nearest to \<open>T\<close> and \<open>totalUnitsIssued\<close> as the double nearest to the exact signed
  difference \<open>T - G\<close>: these are \<open>T\<close> and \<open>T - G\<close> themselves when \<open>T\<close> and \<open>\<bar>T - G\<bar>\<close> are
  at most \<open>2 ^ 53\<close>. When \<open>G \<le> T\<close> the reported \<open>totalUnitsIssued\<close> is not negative; when
  \<open>G > T\<close> it is negative: a negative result is reported, not clamped.
\<close>

theorem total_units_issued:
  assumes "BankExtensionContract h = Some c"
    and "balanceOf c (TOTAL_ADDRESS cfg) (UNITS_ADDRESS cfg) = Inr t"
    and "balanceOf c (GUILD_ADDRESS cfg) (UNITS_ADDRESS cfg) = Inr g"
  shows "totalUnitsStatus (getTotalUnitsFromExtension cfg h st) = FULFILLED \<and>
         totalUnits (getTotalUnitsFromExtension cfg h st) = Some (jsNumber (int t)) \<and>
         totalUnitsIssued (getTotalUnitsFromExtension cfg h st)
           = Some (jsNumber (int t - int g)) \<and>
         (t \<le> 2 ^ 53 \<longrightarrow>
            totalUnits (getTotalUnitsFromExtension cfg h st) = Some (Finite (int t))) \<and>
         (\<bar>int t - int g\<bar> \<le> 2 ^ 53 \<longrightarrow>
            totalUnitsIssued (getTotalUnitsFromExtension cfg h st)
              = Some (Finite (int t - int g))) \<and>
         (g \<le> t \<longrightarrow>
            (case totalUnitsIssued (getTotalUnitsFromExtension cfg h st) of
               Some x \<Rightarrow> numberIsNonNegative x | None \<Rightarrow> False)) \<and>
         (t < g \<longrightarrow>
            (case totalUnitsIssued (getTotalUnitsFromExtension cfg h st) of
               Some x \<Rightarrow> numberIsNegative x | None \<Rightarrow> False))"
proof -
  have "t \<le> 2 ^ 53 \<Longrightarrow> jsNumber (int t) = Finite (int t)"
    by (rule jsNumber_exact) simp
  then show ?thesis
    by (simp add: getTotalUnitsFromExtension_fulfilled [OF assms] jsNumber_exact
        jsNumber_nonneg jsNumber_neg)
qed

theorem total_units_issued_witness:
  "BankExtensionContract (exampleHook NOT_OK (exampleBank 100 60)) = Some (exampleBank 100 60) \<and>
   balanceOf (exampleBank 100 60) (TOTAL_ADDRESS exampleConfig) (UNITS_ADDRESS exampleConfig)
     = Inr 100 \<and>
   balanceOf (exampleBank 100 60) (GUILD_ADDRESS exampleConfig) (UNITS_ADDRESS exampleConfig)
     = Inr 60 \<and>
   totalUnitsStatus (getTotalUnitsFromExtension exampleConfig
     (exampleHook NOT_OK (exampleBank 100 60)) initialReturn) = FULFILLED \<and>
   totalUnits (getTotalUnitsFromExtension exampleConfig
     (exampleHook NOT_OK (exampleBank 100 60)) initialReturn) = Some (Finite 100) \<and>
   totalUnitsIssued (getTotalUnitsFromExtension exampleConfig
     (exampleHook NOT_OK (exampleBank 100 60)) initialReturn) = Some (Finite 40) \<and>
   balanceOf (exampleBank 60 100) (TOTAL_ADDRESS exampleConfig) (UNITS_ADDRESS exampleConfig)
     = Inr 60 \<and>
   balanceOf (exampleBank 60 100) (GUILD_ADDRESS exampleConfig) (UNITS_ADDRESS exampleConfig)
     = Inr 100 \<and>
   totalUnitsIssued (getTotalUnitsFromExtension exampleConfig
     (exampleHook NOT_OK (exampleBank 60 100)) initialReturn) = Some (Finite (- 40))"
  using total_units_issued [where h = "exampleHook NOT_OK (exampleBank 100 60)"
      and c = "exampleBank 100 60" and cfg = exampleConfig and t = 100 and g = 60
      and st = initialReturn]
    total_units_issued [where h = "exampleHook NOT_OK (exampleBank 60 100)"
      and c = "exampleBank 60 100" and cfg = exampleConfig and t = 60 and g = 100
      and st = initialReturn]
  by (simp add: exampleHook_def exampleBank_def exampleConfig_def jsNumber_exact)

text \<open>
  C2, as stated: whenever the health signal is NOT_OK the fetcher never issues a query to
  the indexing service. It fails: the first effect issues the query whenever it has not
  been called yet, and does not read the health signal.
\<close>

theorem indexer_queried_when_not_ok_counterexample:
  "subgraphNetworkStatus (exampleHook NOT_OK (exampleBank 100 60)) = NOT_OK \<and>
   fst (runEffects (map toLowerChar) exampleConfig (exampleHook NOT_OK (exampleBank 100 60))
          initialReturn)
     = [GET_DAO (Some ''0xda0'')]"
proof -
  have "map toLowerChar ''0xDa0'' = ''0xda0''" by code_simp
  then show ?thesis
    by (simp add: runEffects_def lazyQueryEffect_def exampleHook_def)
qed

text \<open>
  C2, amended: whenever the health signal is NOT_OK the fetcher goes straight to the
  direct-contract path and reads nothing of the indexing service's reply (the state it
  is left in does not depend on the query's loading flag, data or error). Whatever the
  health signal is, the query to the indexing service is issued exactly when it has not
  been called yet: the queries issued do not depend on the health signal.
\<close>

theorem not_ok_direct_contract_path:
  "(subgraphNetworkStatus h = NOT_OK \<longrightarrow>
      snd (runEffects toLowerCase cfg h st) = getTotalUnitsFromExtension cfg h st \<and>
      snd (runEffects toLowerCase cfg (h\<lparr>loading := l, data := dt, error := er\<rparr>) st)
        = snd (runEffects toLowerCase cfg h st)) \<and>
   (fst (runEffects toLowerCase cfg h st) = [] \<longleftrightarrow> called h) \<and>
   fst (runEffects toLowerCase cfg (h\<lparr>subgraphNetworkStatus := health\<rparr>) st)
     = fst (runEffects toLowerCase cfg h st)"
  by (simp add: runEffects_def healthSignalEffect_def lazyQueryEffect_def
      getTotalUnitsFromExtension_indexer_independent)

theorem not_ok_direct_contract_path_witness:
  "subgraphNetworkStatus (exampleHook NOT_OK (exampleBank 100 60)) = NOT_OK \<and>
   snd (runEffects (map toLowerChar) exampleConfig (exampleHook NOT_OK (exampleBank 100 60))
          initialReturn)
     = getTotalUnitsFromExtension exampleConfig (exampleHook NOT_OK (exampleBank 100 60))
         initialReturn \<and>
   fst (runEffects (map toLowerChar) exampleConfig (exampleHook NOT_OK (exampleBank 100 60))
          initialReturn) \<noteq> [] \<and>
   fst (runEffects (map toLowerChar) exampleConfig (exampleHook OK (exampleBank 100 60))
          initialReturn) \<noteq> []"
  using not_ok_direct_contract_path [where h = "exampleHook NOT_OK (exampleBank 100 60)"
      and toLowerCase = "map toLowerChar" and cfg = exampleConfig and st = initialReturn]
    not_ok_direct_contract_path [where h = "exampleHook OK (exampleBank 100 60)"
      and toLowerCase = "map toLowerChar" and cfg = exampleConfig and st = initialReturn]
  by (simp add: exampleHook_def)

end
